theory Spec2Isabelle
  imports Main "HOL-Library.Word"
begin

section \<open>The Swift bridge of the DynamicActivities hybrid object\<close>

text \<open>
  The development follows \<^verbatim>\<open>HybridDynamicActivitiesSpecSwift.hpp\<close>: a C++ class with one
  data member, \<^verbatim>\<open>_swiftPart\<close>, and three member functions that forward to it.

  The class of the member, \<^verbatim>\<open>DynamicActivities::HybridDynamicActivitiesSpec_cxx\<close>, is only
  forward declared in the header, and \<^verbatim>\<open>Result\<close> comes from the NitroModules library. Both
  are taken as parameters: an instance of the Swift class is a record of its two member
  functions, each a transformer of the Swift side's state (type \<open>'w\<close>), so that nothing is
  assumed about what the Swift code computes or about whether it keeps state between calls.
\<close>

subsection \<open>Values crossing the bridge\<close>

text \<open>
  A \<^verbatim>\<open>double\<close> is its 64-bit pattern: the header never computes with one, it only passes
  them on. \<^verbatim>\<open>size_t\<close> is the unsigned 64-bit integer of the 64-bit iOS targets.
\<close>

type_synonym double = "64 word"

type_synonym size_t = "64 word"

text \<open>
  \<^verbatim>\<open>Result<double>\<close> holds either a value or a \<^verbatim>\<open>std::exception_ptr\<close> (type \<open>'e\<close>).
  \<^verbatim>\<open>hasError()\<close> tells which; \<^verbatim>\<open>value()\<close> and \<^verbatim>\<open>error()\<close> (here \<open>value_of\<close> and
  \<open>error_of\<close>) read the one it holds, and mean nothing on the other.
\<close>

datatype 'e Result = withValue (value_of: double) | withError (error_of: 'e)

fun hasError :: "'e Result \<Rightarrow> bool" where
  "hasError (withValue v) = False"
| "hasError (withError e) = True"

subsection \<open>The Swift instance and the adapter\<close>

text \<open>
  \<^verbatim>\<open>_swiftPart.sum(num1, num2)\<close> yields a \<^verbatim>\<open>Result<double>\<close>.
  \<^verbatim>\<open>_swiftPart.getMemorySize()\<close> yields a number which the adapter returns as
  \<^verbatim>\<open>size_t\<close> without a cast; its declared type is not in the header, and it is taken
  here at the width of \<^verbatim>\<open>size_t\<close>, as the 64-bit pattern that the adapter hands on.
  An object of this class is a handle: copying it gives a second handle whose functions
  work on the same Swift-side state.
\<close>

record ('e, 'w) HybridDynamicActivitiesSpec_cxx =
  sum_cxx :: "double \<Rightarrow> double \<Rightarrow> 'w \<Rightarrow> 'e Result \<times> 'w"
  getMemorySize :: "'w \<Rightarrow> size_t \<times> 'w"

text \<open>
  The adapter's only data member, \<^verbatim>\<open>_swiftPart\<close>, declared by value. The base class
  \<^verbatim>\<open>HybridObject\<close> belongs to NitroModules; the functions below name none of its members.
\<close>

record ('e, 'w) HybridDynamicActivitiesSpecSwift =
  swiftPart :: "('e, 'w) HybridDynamicActivitiesSpec_cxx"

text \<open>
  A reference to an object of the Swift class names a place: an object of the caller, by
  its address, or the member \<^verbatim>\<open>_swiftPart\<close> of the adapter.
\<close>

type_synonym ref = nat

datatype place = Caller_object ref | Member_swiftPart

text \<open>
  The member functions are not \<^verbatim>\<open>const\<close>, so each returns the adapter it leaves behind
  next to its result and the Swift side's new state. \<^verbatim>\<open>getSwiftPart\<close> returns a reference
  to the member, and not a \<^verbatim>\<open>const\<close> one: who holds it can read the member and can
  assign to it (\<open>read_place\<close> and \<open>assign_place\<close> below). \<^verbatim>\<open>sum\<close> either returns a
  \<^verbatim>\<open>double\<close> (\<open>Inr\<close>) or leaves by \<^verbatim>\<open>std::rethrow_exception\<close> (\<open>Inl\<close>).
\<close>

definition getSwiftPart ::
  "('e, 'w) HybridDynamicActivitiesSpecSwift \<Rightarrow>
   place \<times> ('e, 'w) HybridDynamicActivitiesSpecSwift" where
  "getSwiftPart this = (Member_swiftPart, this)"

definition getExternalMemorySize ::
  "('e, 'w) HybridDynamicActivitiesSpecSwift \<Rightarrow> 'w \<Rightarrow>
   size_t \<times> ('e, 'w) HybridDynamicActivitiesSpecSwift \<times> 'w" where
  "getExternalMemorySize this w =
     (case getMemorySize (swiftPart this) w of (n, w') \<Rightarrow> (n, this, w'))"

definition sum_swift ::
  "('e, 'w) HybridDynamicActivitiesSpecSwift \<Rightarrow> double \<Rightarrow> double \<Rightarrow> 'w \<Rightarrow>
   ('e + double) \<times> ('e, 'w) HybridDynamicActivitiesSpecSwift \<times> 'w" where
  "sum_swift this num1 num2 w =
     (case sum_cxx (swiftPart this) num1 num2 w of
        (result, w') \<Rightarrow>
          if hasError result then (Inl (error_of result), this, w')
          else (Inr (value_of result), this, w'))"

text \<open>
  The constructor takes the Swift instance by \<^verbatim>\<open>const\<close> reference and copy-initialises
  the member from it. The caller's objects live in a memory, by address; the reference is
  an address, and the adapter gets the object found there.
\<close>

type_synonym ('e, 'w) memory = "ref \<Rightarrow> ('e, 'w) HybridDynamicActivitiesSpec_cxx"

definition HybridDynamicActivitiesSpecSwift_ctor ::
  "('e, 'w) memory \<Rightarrow> ref \<Rightarrow> ('e, 'w) HybridDynamicActivitiesSpecSwift" where
  "HybridDynamicActivitiesSpecSwift_ctor mem swiftPart_ref = \<lparr>swiftPart = mem swiftPart_ref\<rparr>"

text \<open>
  Reading through a reference, and assigning through one that is not \<^verbatim>\<open>const\<close>: the
  object at the caller's address, or the adapter's member.
\<close>

fun read_place ::
  "('e, 'w) memory \<Rightarrow> ('e, 'w) HybridDynamicActivitiesSpecSwift \<Rightarrow> place \<Rightarrow>
   ('e, 'w) HybridDynamicActivitiesSpec_cxx" where
  "read_place mem this (Caller_object r) = mem r"
| "read_place mem this Member_swiftPart = swiftPart this"

fun assign_place ::
  "('e, 'w) memory \<Rightarrow> ('e, 'w) HybridDynamicActivitiesSpecSwift \<Rightarrow> place \<Rightarrow>
   ('e, 'w) HybridDynamicActivitiesSpec_cxx \<Rightarrow>
   ('e, 'w) memory \<times> ('e, 'w) HybridDynamicActivitiesSpecSwift" where
  "assign_place mem this (Caller_object r) sp = (mem(r := sp), this)"
| "assign_place mem this Member_swiftPart sp = (mem, this\<lparr>swiftPart := sp\<rparr>)"

subsection \<open>Sequences of calls\<close>

text \<open>
  A client calls the three member functions in any order. A call that raises is an
  outcome like any other: the client may catch the exception and go on calling.
\<close>

datatype call = Call_sum double double | Call_getExternalMemorySize | Call_getSwiftPart

datatype 'e outcome =
    Raised 'e
  | Returned_double double
  | Returned_size size_t
  | Returned_swiftPart place

fun invoke ::
  "('e, 'w) HybridDynamicActivitiesSpecSwift \<Rightarrow> call \<Rightarrow> 'w \<Rightarrow>
   'e outcome \<times> ('e, 'w) HybridDynamicActivitiesSpecSwift \<times> 'w" where
  "invoke this (Call_sum num1 num2) w =
     (case sum_swift this num1 num2 w of
        (Inl e, this', w') \<Rightarrow> (Raised e, this', w')
      | (Inr v, this', w') \<Rightarrow> (Returned_double v, this', w'))"
| "invoke this Call_getExternalMemorySize w =
     (case getExternalMemorySize this w of (n, this', w') \<Rightarrow> (Returned_size n, this', w'))"
| "invoke this Call_getSwiftPart w =
     (case getSwiftPart this of (p, this') \<Rightarrow> (Returned_swiftPart p, this', w))"

fun run ::
  "('e, 'w) HybridDynamicActivitiesSpecSwift \<Rightarrow> call list \<Rightarrow> 'w \<Rightarrow>
   'e outcome list \<times> ('e, 'w) HybridDynamicActivitiesSpecSwift \<times> 'w" where
  "run this [] w = ([], this, w)"
| "run this (c # cs) w =
     (case invoke this c w of
        (out, this', w') \<Rightarrow>
          (case run this' cs w' of (outs, this'', w'') \<Rightarrow> (out # outs, this'', w'')))"

text \<open>
  Between its calls a client may also assign through a reference it holds: to the object
  it once passed to the constructor (\<^verbatim>\<open>original = other\<close>), or, \<^verbatim>\<open>getSwiftPart\<close> being
  public, to the adapter's member (\<^verbatim>\<open>adapter.getSwiftPart() = other\<close>).
\<close>

datatype ('e, 'w) action =
    Invoke call
  | Assign place "('e, 'w) HybridDynamicActivitiesSpec_cxx"

fun calls_of :: "('e, 'w) action list \<Rightarrow> call list" where
  "calls_of [] = []"
| "calls_of (Invoke c # acts) = c # calls_of acts"
| "calls_of (Assign p sp # acts) = calls_of acts"

fun exec ::
  "('e, 'w) memory \<Rightarrow> ('e, 'w) HybridDynamicActivitiesSpecSwift \<Rightarrow> ('e, 'w) action list \<Rightarrow> 'w \<Rightarrow>
   'e outcome list \<times> ('e, 'w) memory \<times> ('e, 'w) HybridDynamicActivitiesSpecSwift \<times> 'w" where
  "exec mem this [] w = ([], mem, this, w)"
| "exec mem this (Invoke c # acts) w =
     (case invoke this c w of
        (out, this', w') \<Rightarrow>
          (case exec mem this' acts w' of (outs, final) \<Rightarrow> (out # outs, final)))"
| "exec mem this (Assign p sp # acts) w =
     (case assign_place mem this p sp of (mem', this') \<Rightarrow> exec mem' this' acts w)"

text \<open>
  Whether a sequence assigns to the member through the reference of \<^verbatim>\<open>getSwiftPart\<close>, and
  the member such assignments leave: the last one assigned, or the one it started with.
\<close>

fun assigns_member :: "('e, 'w) action list \<Rightarrow> bool" where
  "assigns_member [] = False"
| "assigns_member (Invoke c # acts) = assigns_member acts"
| "assigns_member (Assign (Caller_object r) sp # acts) = assigns_member acts"
| "assigns_member (Assign Member_swiftPart sp # acts) = True"

fun member_after ::
  "('e, 'w) HybridDynamicActivitiesSpec_cxx \<Rightarrow> ('e, 'w) action list \<Rightarrow>
   ('e, 'w) HybridDynamicActivitiesSpec_cxx" where
  "member_after m [] = m"
| "member_after m (Invoke c # acts) = member_after m acts"
| "member_after m (Assign (Caller_object r) sp # acts) = member_after m acts"
| "member_after m (Assign Member_swiftPart sp # acts) = member_after sp acts"

subsection \<open>Finite and non-finite doubles\<close>

text \<open>
  The IEEE 754 binary64 classification, on the bit pattern: a double is finite unless
  its eleven exponent bits (bits 52 to 62) are all ones. The header has no such test; the
  predicate is here to say so.
\<close>

definition isfinite :: "double \<Rightarrow> bool" where
  "isfinite d = (take_bit 11 (drop_bit 52 d) \<noteq> (2047 :: 64 word))"

definition quiet_NaN :: double where
  "quiet_NaN = 0x7FF8000000000000"

definition pos_infinity :: double where
  "pos_infinity = 0x7FF0000000000000"

definition neg_infinity :: double where
  "neg_infinity = 0xFFF0000000000000"

subsection \<open>A Swift instance to run the adapter on\<close>

text \<open>
  An instance for the examples below: its state is the log of the argument pairs its
  \<^verbatim>\<open>sum\<close> has received; \<^verbatim>\<open>sum\<close> fails when the second argument is the pattern of
  \<open>+0.0\<close> and returns its first argument otherwise; the memory size is the length of the
  log. It is not the repository's Swift class.
\<close>

definition logging_swiftPart ::
  "(string, (double \<times> double) list) HybridDynamicActivitiesSpec_cxx" where
  "logging_swiftPart =
     \<lparr>sum_cxx = (\<lambda>num1 num2 w.
        (if num2 = 0 then withError ''failed'' else withValue num1, w @ [(num1, num2)])),
      getMemorySize = (\<lambda>w. (of_nat (length w), w))\<rparr>"

text \<open>A caller's memory with that instance at every address, and the adapter built from address 0.\<close>

definition logging_memory :: "(string, (double \<times> double) list) memory" where
  "logging_memory = (\<lambda>r. logging_swiftPart)"

definition logging_adapter ::
  "(string, (double \<times> double) list) HybridDynamicActivitiesSpecSwift" where
  "logging_adapter = HybridDynamicActivitiesSpecSwift_ctor logging_memory 0"

text \<open>
  A second instance, whose \<^verbatim>\<open>sum\<close> always fails: what a client may later assign
  through a reference.
\<close>

definition failing_swiftPart ::
  "(string, (double \<times> double) list) HybridDynamicActivitiesSpec_cxx" where
  "failing_swiftPart =
     \<lparr>sum_cxx = (\<lambda>num1 num2 w. (withError ''replaced'', w)),
      getMemorySize = (\<lambda>w. (0, w))\<rparr>"

lemmas logging_defs =
  logging_adapter_def logging_memory_def logging_swiftPart_def HybridDynamicActivitiesSpecSwift_ctor_def
  sum_swift_def getExternalMemorySize_def getSwiftPart_def

section \<open>Properties\<close>

subsection \<open>Shared lemmas\<close>

lemma sum_swift_this: "fst (snd (sum_swift this num1 num2 w)) = this"
  by (simp add: sum_swift_def split: prod.split)

lemma getExternalMemorySize_this: "fst (snd (getExternalMemorySize this w)) = this"
  by (simp add: getExternalMemorySize_def split: prod.split)

lemma invoke_this: "fst (snd (invoke this c w)) = this"
proof (cases c)
  case (Call_sum num1 num2)
  have "fst (snd (sum_swift this num1 num2 w)) = this"
    by (rule sum_swift_this)
  then show ?thesis
    using Call_sum by (auto split: prod.split sum.split)
next
  case Call_getExternalMemorySize
  have "fst (snd (getExternalMemorySize this w)) = this"
    by (rule getExternalMemorySize_this)
  then show ?thesis
    using Call_getExternalMemorySize by (auto split: prod.split)
next
  case Call_getSwiftPart
  then show ?thesis by (simp add: getSwiftPart_def)
qed

lemma run_Cons:
  "run this (c # cs) w =
     (fst (invoke this c w) # fst (run this cs (snd (snd (invoke this c w)))),
      snd (run this cs (snd (snd (invoke this c w)))))"
proof -
  obtain out this' w' where inv: "invoke this c w = (out, this', w')"
    by (cases "invoke this c w")
  with invoke_this [of this c w] have "this' = this" by simp
  with inv show ?thesis by (simp add: case_prod_unfold)
qed

lemma run_this: "fst (snd (run this cs w)) = this"
proof (induction cs arbitrary: w)
  case Nil
  show ?case by simp
next
  case (Cons c cs)
  show ?case by (simp only: run_Cons snd_conv Cons.IH)
qed

lemma length_run: "length (fst (run this cs w)) = length cs"
proof (induction cs arbitrary: w)
  case Nil
  show ?case by simp
next
  case (Cons c cs)
  show ?case by (simp only: run_Cons fst_conv list.size Cons.IH)
qed

lemma invoke_getExternalMemorySize:
  "fst (invoke this Call_getExternalMemorySize w) = Returned_size (fst (getMemorySize (swiftPart this) w))"
  by (simp add: getExternalMemorySize_def split: prod.split)

lemma run_nth_getExternalMemorySize:
  "i < length cs \<Longrightarrow> cs ! i = Call_getExternalMemorySize \<Longrightarrow>
   \<exists>n. fst (run this cs w) ! i = Returned_size n"
proof (induction cs arbitrary: i w)
  case Nil
  then show ?case by simp
next
  case (Cons c cs)
  show ?case
  proof (cases i)
    case 0
    with Cons.prems have "c = Call_getExternalMemorySize" by simp
    with 0 show ?thesis
      by (simp only: run_Cons fst_conv nth_Cons_0 invoke_getExternalMemorySize) blast
  next
    case (Suc j)
    with Cons.prems have "j < length cs" and "cs ! j = Call_getExternalMemorySize"
      by simp_all
    then have "\<exists>n. fst (run this cs (snd (snd (invoke this c w)))) ! j = Returned_size n"
      by (rule Cons.IH)
    with Suc show ?thesis
      by (simp only: run_Cons fst_conv nth_Cons_Suc)
  qed
qed

lemma exec_Invoke:
  "exec mem this (Invoke c # acts) w =
     (fst (invoke this c w) # fst (exec mem this acts (snd (snd (invoke this c w)))),
      snd (exec mem this acts (snd (snd (invoke this c w)))))"
proof -
  obtain out this' w' where inv: "invoke this c w = (out, this', w')"
    by (cases "invoke this c w")
  with invoke_this [of this c w] have "this' = this" by simp
  with inv show ?thesis by (simp add: case_prod_unfold)
qed

lemma exec_member:
  "swiftPart (fst (snd (snd (exec mem this acts w)))) = member_after (swiftPart this) acts"
proof (induction acts arbitrary: mem this w)
  case Nil
  show ?case by simp
next
  case (Cons act acts)
  show ?case
  proof (cases act)
    case (Invoke c)
    then show ?thesis by (simp only: exec_Invoke snd_conv member_after.simps Cons.IH)
  next
    case (Assign p sp)
    then show ?thesis by (cases p) (simp_all add: Cons.IH)
  qed
qed

lemma exec_this_unassigned:
  "\<not> assigns_member acts \<Longrightarrow> fst (snd (snd (exec mem this acts w))) = this"
proof (induction acts arbitrary: mem w)
  case Nil
  show ?case by simp
next
  case (Cons act acts)
  show ?case
  proof (cases act)
    case (Invoke c)
    with Cons.prems have "\<not> assigns_member acts" by simp
    then have "fst (snd (snd (exec mem this acts (snd (snd (invoke this c w)))))) = this"
      by (rule Cons.IH)
    with Invoke show ?thesis by (simp only: exec_Invoke snd_conv)
  next
    case (Assign p sp)
    show ?thesis
    proof (cases p)
      case (Caller_object r)
      with Assign Cons.prems have "\<not> assigns_member acts" by simp
      then have "fst (snd (snd (exec (mem(r := sp)) this acts w))) = this"
        by (rule Cons.IH)
      with Assign Caller_object show ?thesis by simp
    next
      case Member_swiftPart
      with Assign Cons.prems show ?thesis by simp
    qed
  qed
qed

lemma exec_outcomes_unassigned:
  "\<not> assigns_member acts \<Longrightarrow> fst (exec mem this acts w) = fst (run this (calls_of acts) w)"
proof (induction acts arbitrary: mem w)
  case Nil
  show ?case by simp
next
  case (Cons act acts)
  show ?case
  proof (cases act)
    case (Invoke c)
    with Cons.prems have "\<not> assigns_member acts" by simp
    then have "fst (exec mem this acts (snd (snd (invoke this c w))))
        = fst (run this (calls_of acts) (snd (snd (invoke this c w))))"
      by (rule Cons.IH)
    with Invoke show ?thesis by (simp only: exec_Invoke run_Cons calls_of.simps fst_conv)
  next
    case (Assign p sp)
    show ?thesis
    proof (cases p)
      case (Caller_object r)
      with Assign Cons.prems have "\<not> assigns_member acts" by simp
      then have "fst (exec (mem(r := sp)) this acts w) = fst (run this (calls_of acts) w)"
        by (rule Cons.IH)
      with Assign Caller_object show ?thesis by simp
    next
      case Member_swiftPart
      with Assign Cons.prems show ?thesis by simp
    qed
  qed
qed

lemma failing_not_logging: "failing_swiftPart \<noteq> logging_swiftPart"
proof
  assume "failing_swiftPart = logging_swiftPart"
  then have "fst (getMemorySize failing_swiftPart [(0, 0)])
      = fst (getMemorySize logging_swiftPart [(0, 0)])"
    by simp
  then show False by (simp add: failing_swiftPart_def logging_swiftPart_def)
qed

subsection \<open>Error propagation of sum\<close>

text \<open>
  C1. For every call of the adapter's \<^verbatim>\<open>sum\<close>: when the result of the Swift instance's
  \<^verbatim>\<open>sum\<close> holds an error, the adapter raises that very error; when it holds a value, the
  adapter returns that value. The adapter raises exactly when the Swift result has an
  error, and the Swift \<^verbatim>\<open>sum\<close> has run once, on the same two arguments (the state left
  behind is the state after that one call: no retry).
\<close>

theorem sum_raises_iff_foreign_error:
  "fst (sum_swift this num1 num2 w) =
     (case fst (sum_cxx (swiftPart this) num1 num2 w) of
        withError e \<Rightarrow> Inl e
      | withValue v \<Rightarrow> Inr v)
   \<and> isl (fst (sum_swift this num1 num2 w)) = hasError (fst (sum_cxx (swiftPart this) num1 num2 w))
   \<and> snd (snd (sum_swift this num1 num2 w)) = snd (sum_cxx (swiftPart this) num1 num2 w)"
proof -
  obtain result w' where call: "sum_cxx (swiftPart this) num1 num2 w = (result, w')"
    by (cases "sum_cxx (swiftPart this) num1 num2 w")
  show ?thesis
    by (cases result) (simp_all add: sum_swift_def call)
qed

lemma sum_example:
  "fst (sum_swift logging_adapter 5 7 []) = Inr 5
   \<and> fst (sum_swift logging_adapter 5 0 []) = Inl ''failed''
   \<and> snd (snd (sum_swift logging_adapter 5 0 [])) = [(5, 0)]"
  by (simp add: logging_defs)

subsection \<open>The memory size query\<close>

text \<open>
  C3. For every adapter, \<^verbatim>\<open>getExternalMemorySize()\<close> returns exactly the number that the
  Swift instance's \<^verbatim>\<open>getMemorySize()\<close> produced, unchanged; the Swift query has run
  once (the state left behind is the state after that one call).
\<close>

theorem getExternalMemorySize_forwards:
  "fst (getExternalMemorySize this w) = fst (getMemorySize (swiftPart this) w)
   \<and> snd (snd (getExternalMemorySize this w)) = snd (getMemorySize (swiftPart this) w)"
  by (simp add: getExternalMemorySize_def split: prod.split)

text \<open>
  C4. In any sequence of calls, whatever \<^verbatim>\<open>sum\<close> calls (returning or raising) stand
  before and after it, every call of \<^verbatim>\<open>getExternalMemorySize()\<close> returns a size, never
  an error, and the size, read as an unsigned number, is not negative. (Every call of the
  sequence has its outcome: the two lists are equally long.)
\<close>

theorem getExternalMemorySize_never_raises:
  "i < length cs \<Longrightarrow> cs ! i = Call_getExternalMemorySize \<Longrightarrow>
   length (fst (run this cs w)) = length cs
   \<and> (\<exists>n. fst (run this cs w) ! i = Returned_size n \<and> 0 \<le> uint n)"
proof -
  assume "i < length cs" and "cs ! i = Call_getExternalMemorySize"
  then have "\<exists>n. fst (run this cs w) ! i = Returned_size n"
    by (rule run_nth_getExternalMemorySize)
  then obtain n where "fst (run this cs w) ! i = Returned_size n" ..
  moreover have "0 \<le> uint n" by simp
  ultimately have "\<exists>n. fst (run this cs w) ! i = Returned_size n \<and> 0 \<le> uint n"
    by (intro exI conjI)
  with length_run [of this cs w] show ?thesis by (intro conjI)
qed

theorem getExternalMemorySize_never_raises_witness:
  "(2 :: nat) < length [Call_getExternalMemorySize, Call_sum 5 0, Call_getExternalMemorySize,
       Call_sum quiet_NaN 7, Call_getExternalMemorySize]
   \<and> [Call_getExternalMemorySize, Call_sum 5 0, Call_getExternalMemorySize,
       Call_sum quiet_NaN 7, Call_getExternalMemorySize] ! 2 = Call_getExternalMemorySize
   \<and> length (fst (run logging_adapter [Call_getExternalMemorySize, Call_sum 5 0,
         Call_getExternalMemorySize, Call_sum quiet_NaN 7, Call_getExternalMemorySize] [])) =
       length [Call_getExternalMemorySize, Call_sum 5 0, Call_getExternalMemorySize,
         Call_sum quiet_NaN 7, Call_getExternalMemorySize]
   \<and> (\<exists>n. fst (run logging_adapter [Call_getExternalMemorySize, Call_sum 5 0,
         Call_getExternalMemorySize, Call_sum quiet_NaN 7, Call_getExternalMemorySize] []) ! 2
        = Returned_size n \<and> 0 \<le> uint n)"
  using getExternalMemorySize_never_raises [of 2
      "[Call_getExternalMemorySize, Call_sum 5 0, Call_getExternalMemorySize,
        Call_sum quiet_NaN 7, Call_getExternalMemorySize]" logging_adapter "[]"]
  by simp

text \<open>The same sequence, evaluated: the outcomes, and the log the Swift side is left with.\<close>

lemma run_example:
  "run logging_adapter [Call_getExternalMemorySize, Call_sum 5 0, Call_getExternalMemorySize,
       Call_sum quiet_NaN 7, Call_getExternalMemorySize] []
     = ([Returned_size 0, Raised ''failed'', Returned_size 1, Returned_double quiet_NaN,
         Returned_size 2],
        logging_adapter,
        [(5, 0), (quiet_NaN, 7)])"
  by (simp add: logging_defs quiet_NaN_def)

subsection \<open>The adapter has no state of its own to change\<close>

text \<open>
  C7. \<^verbatim>\<open>sum\<close> and \<^verbatim>\<open>getExternalMemorySize\<close> have no effect on the adapter: after a call
  of either (for \<^verbatim>\<open>sum\<close>, whether it returned or raised), and after any sequence of
  calls, the adapter, that is its stored Swift handle, is what it was before.
\<close>

theorem operations_leave_adapter_unchanged:
  "fst (snd (sum_swift this num1 num2 w)) = this
   \<and> fst (snd (getExternalMemorySize this w)) = this
   \<and> fst (snd (run this cs w)) = this"
  by (simp only: sum_swift_this getExternalMemorySize_this run_this)

subsection \<open>The stored copy\<close>

text \<open>
  C9, as first stated: the adapter stores its own copy of the Swift instance, the member
  is never reassigned after construction, and every operation acts on that same copy.
  This fails. \<^verbatim>\<open>getSwiftPart\<close> hands out a reference to the member that is not
  \<^verbatim>\<open>const\<close>: an adapter is built from the logging instance, \<^verbatim>\<open>sum(1, 2)\<close> returns 1, the
  client assigns the failing instance through \<^verbatim>\<open>getSwiftPart()\<close>, and from then on the
  adapter is no longer the one that was built: \<^verbatim>\<open>sum(3, 4)\<close> raises and the memory size
  is 0, where the stored copy would have returned 3 and 2.
\<close>

theorem getSwiftPart_reference_reassigns_member:
  "fst (snd (snd (exec logging_memory
        (HybridDynamicActivitiesSpecSwift_ctor logging_memory 0)
        [Invoke (Call_sum 1 2), Invoke Call_getSwiftPart, Assign Member_swiftPart failing_swiftPart,
         Invoke (Call_sum 3 4), Invoke Call_getExternalMemorySize] [])))
     \<noteq> HybridDynamicActivitiesSpecSwift_ctor logging_memory 0
   \<and> fst (exec logging_memory
        (HybridDynamicActivitiesSpecSwift_ctor logging_memory 0)
        [Invoke (Call_sum 1 2), Invoke Call_getSwiftPart, Assign Member_swiftPart failing_swiftPart,
         Invoke (Call_sum 3 4), Invoke Call_getExternalMemorySize] [])
     = [Returned_double 1, Returned_swiftPart Member_swiftPart, Raised ''replaced'', Returned_size 0]
   \<and> fst (run (HybridDynamicActivitiesSpecSwift_ctor logging_memory 0)
        [Call_sum 1 2, Call_getSwiftPart, Call_sum 3 4, Call_getExternalMemorySize] [])
     = [Returned_double 1, Returned_swiftPart Member_swiftPart, Returned_double 3, Returned_size 2]"
proof (intro conjI)
  have "fst (snd (snd (exec logging_memory
        (HybridDynamicActivitiesSpecSwift_ctor logging_memory 0)
        [Invoke (Call_sum 1 2), Invoke Call_getSwiftPart, Assign Member_swiftPart failing_swiftPart,
         Invoke (Call_sum 3 4), Invoke Call_getExternalMemorySize] [])))
     = \<lparr>swiftPart = failing_swiftPart\<rparr>"
    by (simp add: logging_defs failing_swiftPart_def)
  with failing_not_logging
  show "fst (snd (snd (exec logging_memory
        (HybridDynamicActivitiesSpecSwift_ctor logging_memory 0)
        [Invoke (Call_sum 1 2), Invoke Call_getSwiftPart, Assign Member_swiftPart failing_swiftPart,
         Invoke (Call_sum 3 4), Invoke Call_getExternalMemorySize] [])))
     \<noteq> HybridDynamicActivitiesSpecSwift_ctor logging_memory 0"
    by (simp add: HybridDynamicActivitiesSpecSwift_ctor_def logging_memory_def)
  show "fst (exec logging_memory
        (HybridDynamicActivitiesSpecSwift_ctor logging_memory 0)
        [Invoke (Call_sum 1 2), Invoke Call_getSwiftPart, Assign Member_swiftPart failing_swiftPart,
         Invoke (Call_sum 3 4), Invoke Call_getExternalMemorySize] [])
     = [Returned_double 1, Returned_swiftPart Member_swiftPart, Raised ''replaced'', Returned_size 0]"
    by (simp add: logging_defs failing_swiftPart_def)
  show "fst (run (HybridDynamicActivitiesSpecSwift_ctor logging_memory 0)
        [Call_sum 1 2, Call_getSwiftPart, Call_sum 3 4, Call_getExternalMemorySize] [])
     = [Returned_double 1, Returned_swiftPart Member_swiftPart, Returned_double 3, Returned_size 2]"
    by (simp add: logging_defs)
qed

text \<open>
  C9, amended. The constructor takes a reference and stores a copy: the member is the
  object the reference named when the adapter was built. Through any sequence of calls
  and assignments the member is the last object assigned through the reference of
  \<^verbatim>\<open>getSwiftPart\<close>, or the copy when there was none: no call and no write of the caller to
  its own object changes it. So in a sequence without such an assignment the adapter is
  never reassigned, and the outcomes of its calls are those of the same calls with the
  caller's writes left out. \<^verbatim>\<open>getSwiftPart\<close>, \<^verbatim>\<open>getExternalMemorySize\<close> and \<^verbatim>\<open>sum\<close> all
  work on the member as it is at the call, whatever the caller's memory holds.
\<close>

theorem member_reassigned_only_through_getSwiftPart:
  "swiftPart (HybridDynamicActivitiesSpecSwift_ctor mem r) = mem r
   \<and> swiftPart (fst (snd (snd (exec mem (HybridDynamicActivitiesSpecSwift_ctor mem r) acts w))))
       = member_after (mem r) acts
   \<and> (\<not> assigns_member acts \<longrightarrow>
         fst (snd (snd (exec mem (HybridDynamicActivitiesSpecSwift_ctor mem r) acts w)))
           = HybridDynamicActivitiesSpecSwift_ctor mem r
       \<and> fst (exec mem (HybridDynamicActivitiesSpecSwift_ctor mem r) acts w)
           = fst (run (HybridDynamicActivitiesSpecSwift_ctor mem r) (calls_of acts) w))
   \<and> read_place mem' this (fst (getSwiftPart this)) = swiftPart this
   \<and> fst (getExternalMemorySize this w') = fst (getMemorySize (swiftPart this) w')
   \<and> fst (sum_swift this num1 num2 w')
       = (case fst (sum_cxx (swiftPart this) num1 num2 w') of
            withError e \<Rightarrow> Inl e
          | withValue v \<Rightarrow> Inr v)"
proof (intro conjI impI)
  show built: "swiftPart (HybridDynamicActivitiesSpecSwift_ctor mem r) = mem r"
    by (simp add: HybridDynamicActivitiesSpecSwift_ctor_def)
  show "swiftPart (fst (snd (snd (exec mem (HybridDynamicActivitiesSpecSwift_ctor mem r) acts w))))
       = member_after (mem r) acts"
    by (simp only: exec_member built)
  show "read_place mem' this (fst (getSwiftPart this)) = swiftPart this"
    by (simp add: getSwiftPart_def)
  show "fst (getExternalMemorySize this w') = fst (getMemorySize (swiftPart this) w')"
    by (simp add: getExternalMemorySize_def split: prod.split)
  show "fst (sum_swift this num1 num2 w')
       = (case fst (sum_cxx (swiftPart this) num1 num2 w') of
            withError e \<Rightarrow> Inl e
          | withValue v \<Rightarrow> Inr v)"
    by (simp add: sum_swift_def split: prod.split Result.split)
next
  assume "\<not> assigns_member acts"
  then show "fst (snd (snd (exec mem (HybridDynamicActivitiesSpecSwift_ctor mem r) acts w)))
           = HybridDynamicActivitiesSpecSwift_ctor mem r"
    by (rule exec_this_unassigned)
next
  assume "\<not> assigns_member acts"
  then show "fst (exec mem (HybridDynamicActivitiesSpecSwift_ctor mem r) acts w)
           = fst (run (HybridDynamicActivitiesSpecSwift_ctor mem r) (calls_of acts) w)"
    by (rule exec_outcomes_unassigned)
qed

text \<open>
  An adapter built from the object at address 0; the caller then assigns the failing
  instance to that object. Nothing is assigned to the member, the adapter stays the one
  that was built, and its calls return what they return without the caller's write.
\<close>

theorem member_reassigned_only_through_getSwiftPart_witness:
  "\<not> assigns_member
        [Invoke (Call_sum 1 2), Assign (Caller_object 0) failing_swiftPart,
         Invoke (Call_sum 3 4), Invoke Call_getExternalMemorySize]
   \<and> fst (snd (snd (exec logging_memory
        (HybridDynamicActivitiesSpecSwift_ctor logging_memory 0)
        [Invoke (Call_sum 1 2), Assign (Caller_object 0) failing_swiftPart,
         Invoke (Call_sum 3 4), Invoke Call_getExternalMemorySize] [])))
       = HybridDynamicActivitiesSpecSwift_ctor logging_memory 0
   \<and> fst (exec logging_memory
        (HybridDynamicActivitiesSpecSwift_ctor logging_memory 0)
        [Invoke (Call_sum 1 2), Assign (Caller_object 0) failing_swiftPart,
         Invoke (Call_sum 3 4), Invoke Call_getExternalMemorySize] [])
       = fst (run (HybridDynamicActivitiesSpecSwift_ctor logging_memory 0)
           (calls_of [Invoke (Call_sum 1 2), Assign (Caller_object 0) failing_swiftPart,
              Invoke (Call_sum 3 4), Invoke Call_getExternalMemorySize]) [])"
proof -
  let ?acts = "[Invoke (Call_sum 1 2), Assign (Caller_object 0) failing_swiftPart,
        Invoke (Call_sum 3 4), Invoke Call_getExternalMemorySize]"
  let ?built = "HybridDynamicActivitiesSpecSwift_ctor logging_memory 0"
  have unassigned: "\<not> assigns_member ?acts"
    by simp
  have "\<not> assigns_member ?acts \<longrightarrow>
      fst (snd (snd (exec logging_memory ?built ?acts []))) = ?built
      \<and> fst (exec logging_memory ?built ?acts [])
          = fst (run ?built (calls_of ?acts) [])"
    by (rule member_reassigned_only_through_getSwiftPart
        [of logging_memory 0 ?acts "[]", THEN conjunct2, THEN conjunct2, THEN conjunct1])
  then have "fst (snd (snd (exec logging_memory ?built ?acts []))) = ?built
      \<and> fst (exec logging_memory ?built ?acts [])
          = fst (run ?built (calls_of ?acts) [])"
    using unassigned by (rule mp)
  with unassigned show ?thesis by (rule conjI)
qed

text \<open>The same sequence, evaluated; the caller's memory does hold the new object.\<close>

lemma caller_assign_example:
  "fst (exec logging_memory logging_adapter
        [Invoke (Call_sum 1 2), Assign (Caller_object 0) failing_swiftPart,
         Invoke (Call_sum 3 4), Invoke Call_getExternalMemorySize] [])
     = [Returned_double 1, Returned_double 3, Returned_size 2]
   \<and> fst (snd (exec logging_memory logging_adapter
        [Invoke (Call_sum 1 2), Assign (Caller_object 0) failing_swiftPart,
         Invoke (Call_sum 3 4), Invoke Call_getExternalMemorySize] [])) 0 = failing_swiftPart"
  by (simp add: logging_defs)

subsection \<open>Non-finite arguments\<close>

text \<open>
  C10. \<^verbatim>\<open>sum\<close> makes no finiteness check: for all bit patterns \<open>num1\<close> and \<open>num2\<close>,
  finite or not, the call is the Swift instance's \<^verbatim>\<open>sum\<close> on exactly these two
  arguments, with its result turned into a return or a raise and nothing else done. The
  patterns of NaN, +infinity and -infinity, none of them finite, are among them.
\<close>

theorem sum_has_no_finiteness_check:
  "(\<forall>num1 num2.
      sum_swift this num1 num2 w =
        (case sum_cxx (swiftPart this) num1 num2 w of
           (result, w') \<Rightarrow>
             (case result of withError e \<Rightarrow> Inl e | withValue v \<Rightarrow> Inr v, this, w')))
   \<and> \<not> isfinite quiet_NaN \<and> \<not> isfinite pos_infinity \<and> \<not> isfinite neg_infinity"
proof (intro conjI allI)
  fix num1 num2
  show "sum_swift this num1 num2 w =
        (case sum_cxx (swiftPart this) num1 num2 w of
           (result, w') \<Rightarrow>
             (case result of withError e \<Rightarrow> Inl e | withValue v \<Rightarrow> Inr v, this, w'))"
    by (simp add: sum_swift_def split: prod.split Result.split)
  show "\<not> isfinite quiet_NaN"
    by (simp add: isfinite_def quiet_NaN_def)
  show "\<not> isfinite pos_infinity"
    by (simp add: isfinite_def pos_infinity_def)
  show "\<not> isfinite neg_infinity"
    by (simp add: isfinite_def neg_infinity_def)
qed

text \<open>
  On the logging instance: NaN and -infinity arrive in the log as they were passed, and
  NaN comes back; on +infinity and +0.0 the error of the instance itself is raised.
\<close>

lemma non_finite_example:
  "sum_swift logging_adapter quiet_NaN neg_infinity []
     = (Inr quiet_NaN, logging_adapter, [(quiet_NaN, neg_infinity)])
   \<and> fst (sum_swift logging_adapter pos_infinity 0 []) = Inl ''failed''"
  by (simp add: logging_defs neg_infinity_def)

end
